theory Spec2Isabelle
  imports Complex_Main "HOL-Library.Sublist"
begin

section \<open>Wild Vision: detector, snapshot store, two-layer verifier, frame source\<close>

text \<open>
  A shallow embedding of \<^verbatim>\<open>utils/yolo_detector.py\<close>, \<^verbatim>\<open>utils/verification.py\<close> and
  \<^verbatim>\<open>utils/video_processor.py\<close>.

  Conventions of the embedding:
  \<^item> Python floats are modelled as \<open>real\<close>: the code only compares confidences, copies them
    and scales one by 100 for a file name. NaN is outside the model (the data model bounds a
    confidence to the interval from 0 to 1).
  \<^item> The YOLO network, the JPEG codec, the capture backend and the clock are opaque to the
    repository; they are parameters of the model (the record \<open>env\<close>, the timestamp and clock
    arguments) and every theorem holds for all of them.
  \<^item> The file system is a finite map from paths to file contents. A write that the codec
    accepts stores the file. \<open>unlink\<close> raises on a missing file, and on an existing one
    when the file system refuses the removal (permission denied, the path is a directory):
    which paths it refuses, and with what exception, is the parameter \<open>unlink_error\<close>.
  \<^item> An exception is a value \<open>PyError msg\<close>; a function that can raise returns a sum with
    \<open>Inl\<close> for the exception. A function whose whole body sits inside
    \<^verbatim>\<open>try ... except Exception\<close> has no exceptional exit and returns a plain value.
  \<^item> Of the output channels, the messages of \<^verbatim>\<open>st.error\<close> in \<open>detect_objects\<close> are
    returned with its result; what \<^verbatim>\<open>print\<close> writes to the console is left out.
  \<^item> The percentage in a snapshot file name is computed on reals; for some confidences the
    float product falls just below the integer that the real product reaches, and Python's
    name shows one percent less. No theorem depends on the digits.
\<close>

subsection \<open>Data model\<close>

datatype py_error = PyError string

fun error_text :: "py_error \<Rightarrow> string" where
  "error_text (PyError msg) = msg"

type_synonym bbox = "int \<times> int \<times> int \<times> int"

record detection =
  class_id :: int
  class_name :: string
  confidence :: real
  bbox :: bbox

record image =
  height :: nat
  width :: nat
  pixels :: "nat list"

text \<open>One box of a YOLO result: \<^verbatim>\<open>box.cls[0]\<close>, \<^verbatim>\<open>box.conf[0]\<close>, \<^verbatim>\<open>box.xyxy[0]\<close>.\<close>

record raw_box =
  box_cls :: real
  box_conf :: real
  box_xyxy :: "real \<times> real \<times> real \<times> real"

text \<open>\<^verbatim>\<open>model.predict(image, conf=...)\<close>: a list of results, each with its boxes, or an exception.\<close>

type_synonym yolo = "image \<Rightarrow> real \<Rightarrow> py_error + raw_box list list"

type_synonym path = string
type_synonym file_data = "nat list"
type_synonym filesystem = "path \<rightharpoonup> file_data"

text \<open>
  The environment: \<open>model\<close> is what the cached \<^verbatim>\<open>load_model()\<close> returns (\<open>None\<close> when loading
  failed); \<open>snapshot_dir\<close> is \<^verbatim>\<open>config.SNAPSHOT_DIR\<close>; \<open>imencode\<close> is the encoder inside
  \<^verbatim>\<open>cv2.imwrite\<close> for a \<^verbatim>\<open>.jpg\<close> path (it raises, or returns False and writes nothing, or
  produces the bytes written); \<open>imdecode\<close> is the decoder inside \<^verbatim>\<open>cv2.imread\<close>;
  \<open>unlink_error p\<close> is the exception with which the file system refuses to remove \<open>p\<close>,
  if it does.
\<close>

record env =
  model :: "yolo option"
  snapshot_dir :: string
  imencode :: "image \<Rightarrow> py_error + file_data option"
  imdecode :: "file_data \<Rightarrow> image option"
  unlink_error :: "path \<Rightarrow> py_error option"

subsection \<open>config.py\<close>

definition CLASS_NAMES :: "int \<rightharpoonup> string" where
  "CLASS_NAMES = [0 \<mapsto> ''Bear'', 1 \<mapsto> ''Elephant'', 2 \<mapsto> ''Leopard'', 3 \<mapsto> ''Tiger'']"

definition LAYER1_CONFIDENCE :: real where
  "LAYER1_CONFIDENCE = 0.50"

definition LAYER2_CONFIDENCE :: real where
  "LAYER2_CONFIDENCE = 0.40"

definition WEBCAM_WIDTH :: nat where
  "WEBCAM_WIDTH = 640"

definition WEBCAM_HEIGHT :: nat where
  "WEBCAM_HEIGHT = 480"

definition WEBCAM_FPS :: nat where
  "WEBCAM_FPS = 30"

subsection \<open>Python primitives\<close>

text \<open>\<^verbatim>\<open>int(x)\<close> on a float truncates toward zero.\<close>

definition py_int :: "real \<Rightarrow> int" where
  "py_int x = (if 0 \<le> x then \<lfloor>x\<rfloor> else \<lceil>x\<rceil>)"

text \<open>\<^verbatim>\<open>str(n)\<close> on an integer: decimal digits, with a minus sign when negative.\<close>

definition digit_char :: "nat \<Rightarrow> char" where
  "digit_char d = ''0123456789'' ! d"

function str_nat :: "nat \<Rightarrow> string" where
  "str_nat n = (if n < 10 then [digit_char n] else str_nat (n div 10) @ [digit_char (n mod 10)])"
  by pat_completeness auto
termination
  by (relation "measure id") auto

declare str_nat.simps [simp del]

definition str_int :: "int \<Rightarrow> string" where
  "str_int i = (if i < 0 then CHR ''-'' # str_nat (nat (- i)) else str_nat (nat i))"

text \<open>
  \<^verbatim>\<open>max(xs, key=k)\<close> on a non-empty list: the running maximum starts at the first element
  and is replaced only by an element whose key is strictly greater.
\<close>

definition py_max_key :: "('a \<Rightarrow> real) \<Rightarrow> 'a \<Rightarrow> 'a list \<Rightarrow> 'a" where
  "py_max_key k x xs = foldl (\<lambda>best y. if k best < k y then y else best) x xs"

subsection \<open>yolo_detector.py\<close>

definition parse_box :: "raw_box \<Rightarrow> detection" where
  "parse_box b =
     (let cid = py_int (box_cls b);
          (x1, y1, x2, y2) = box_xyxy b
      in \<lparr>class_id = cid,
          class_name = (case CLASS_NAMES cid of Some n \<Rightarrow> n | None \<Rightarrow> ''Class_'' @ str_int cid),
          confidence = box_conf b,
          bbox = (py_int x1, py_int y1, py_int x2, py_int y2)\<rparr>)"

text \<open>
  \<open>detect_objects\<close> returns the messages it shows through \<^verbatim>\<open>st.error\<close> together with
  the detection list. It has no other exit: the \<^verbatim>\<open>except Exception\<close> clause covers the
  whole inference and parsing block.
\<close>

definition detect_objects :: "env \<Rightarrow> image \<Rightarrow> real \<Rightarrow> string list \<times> detection list" where
  "detect_objects e img conf_threshold =
     (case model e of
        None \<Rightarrow> ([], [])
      | Some m \<Rightarrow>
          (case m img conf_threshold of
             Inl err \<Rightarrow> ([''Detection error: '' @ error_text err], [])
           | Inr results \<Rightarrow> ([], concat (map (map parse_box) results))))"

definition get_highest_confidence_detection :: "detection list \<Rightarrow> detection option" where
  "get_highest_confidence_detection detections =
     (case detections of
        [] \<Rightarrow> None
      | d # ds \<Rightarrow> Some (py_max_key confidence d ds))"

subsection \<open>File system and codec primitives\<close>

definition path_exists :: "filesystem \<Rightarrow> path \<Rightarrow> bool" where
  "path_exists fs p = (fs p \<noteq> None)"

text \<open>
  \<^verbatim>\<open>Path.unlink()\<close>: raises FileNotFoundError when there is no file, raises the exception
  of the file system when it refuses the removal, and removes the file otherwise.
\<close>

definition unlink :: "env \<Rightarrow> filesystem \<Rightarrow> path \<Rightarrow> py_error + filesystem" where
  "unlink e fs p =
     (if \<not> path_exists fs p then Inl (PyError ''FileNotFoundError'')
      else
        case unlink_error e p of
          Some err \<Rightarrow> Inl err
        | None \<Rightarrow> Inr (fs(p := None)))"

text \<open>
  \<^verbatim>\<open>cv2.imwrite(path, image)\<close>: raises, or returns False leaving the file system as it was,
  or stores the encoded bytes under the path (replacing a file already there) and returns
  True.
\<close>

definition imwrite :: "env \<Rightarrow> filesystem \<Rightarrow> path \<Rightarrow> image \<Rightarrow> py_error + bool \<times> filesystem" where
  "imwrite e fs p img =
     (case imencode e img of
        Inl err \<Rightarrow> Inl err
      | Inr None \<Rightarrow> Inr (False, fs)
      | Inr (Some data) \<Rightarrow> Inr (True, fs(p \<mapsto> data)))"

text \<open>\<^verbatim>\<open>cv2.imread(path)\<close>: None when the file is missing or cannot be decoded.\<close>

definition imread :: "env \<Rightarrow> filesystem \<Rightarrow> path \<Rightarrow> image option" where
  "imread e fs p = (case fs p of None \<Rightarrow> None | Some data \<Rightarrow> imdecode e data)"

subsection \<open>verification.py\<close>

record best_summary =
  species :: string
  confidence_layer1 :: real
  confidence_layer2 :: real
  bbox_layer1 :: bbox
  bbox_layer2 :: bbox

record verification_result =
  layer1_detections :: "detection list"
  layer2_detections :: "detection list"
  verified :: bool
  snapshot_path :: "path option"
  best_detection :: "best_summary option"
  rejection_reason :: "string option"

text \<open>
  The file name of a snapshot. \<open>timestamp\<close> is the reading
  \<^verbatim>\<open>datetime.now().strftime("%Y%m%d_%H%M%S_%f")[:-3]\<close> of the local clock.
\<close>

definition snapshot_filename :: "string \<Rightarrow> detection \<Rightarrow> string \<Rightarrow> string" where
  "snapshot_filename timestamp det source =
     timestamp @ ''_'' @ class_name det @ ''_''
       @ str_int (py_int (confidence det * 100)) @ ''_'' @ source @ ''.jpg''"

definition snapshot_filepath :: "env \<Rightarrow> string \<Rightarrow> detection \<Rightarrow> string \<Rightarrow> path" where
  "snapshot_filepath e timestamp det source =
     snapshot_dir e @ ''/'' @ snapshot_filename timestamp det source"

text \<open>
  \<open>save_snapshot\<close>: everything happens inside \<^verbatim>\<open>try\<close>. Subscripting a detection that is
  None raises TypeError, and the encoder may raise; both end in \<^verbatim>\<open>return None\<close>. The value
  returned by \<^verbatim>\<open>cv2.imwrite\<close> is not looked at.
\<close>

definition save_snapshot ::
  "env \<Rightarrow> filesystem \<Rightarrow> string \<Rightarrow> image \<Rightarrow> detection option \<Rightarrow> string \<Rightarrow> filesystem \<times> path option" where
  "save_snapshot e fs timestamp img detection source =
     (case detection of
        None \<Rightarrow> (fs, None)
      | Some det \<Rightarrow>
          (let filepath = snapshot_filepath e timestamp det source
           in case imwrite e fs filepath img of
                Inl err \<Rightarrow> (fs, None)
              | Inr (written, fs') \<Rightarrow> (fs', Some filepath)))"

text \<open>
  \<open>delete_snapshot\<close>: an exception of \<^verbatim>\<open>unlink\<close> is caught and turned into False, with
  the file still in place.
\<close>

definition delete_snapshot :: "env \<Rightarrow> filesystem \<Rightarrow> path \<Rightarrow> filesystem \<times> bool" where
  "delete_snapshot e fs filepath =
     (if path_exists fs filepath then
        (case unlink e fs filepath of
           Inl err \<Rightarrow> (fs, False)
         | Inr fs' \<Rightarrow> (fs', True))
      else (fs, False))"

text \<open>
  \<open>verify_detection_2layer\<close> returns the file system it leaves behind and either the
  result dictionary or the exception that escapes it. The only statement outside a
  \<^verbatim>\<open>try\<close> that can raise is the comparison of the two species, which subscripts
  \<^verbatim>\<open>best_layer1\<close> and \<^verbatim>\<open>best_layer2\<close>: a TypeError, were one of them None. The messages
  of the two detector passes are not part of the result, and what \<open>delete_snapshot\<close>
  returns is not looked at.
\<close>

definition verify_detection_2layer ::
  "env \<Rightarrow> filesystem \<Rightarrow> string \<Rightarrow> image \<Rightarrow> filesystem \<times> (py_error + verification_result)" where
  "verify_detection_2layer e fs timestamp img =
     (let layer1 = snd (detect_objects e img LAYER1_CONFIDENCE) in
      if layer1 = [] then
        (fs, Inr \<lparr>layer1_detections = [], layer2_detections = [], verified = False,
                  snapshot_path = None, best_detection = None,
                  rejection_reason = Some ''No Layer 1 detection''\<rparr>)
      else
        let best_layer1 = get_highest_confidence_detection layer1;
            (fs1, saved) = save_snapshot e fs timestamp img best_layer1 ''verification''
        in if saved = None \<or> saved = Some [] then
             (fs1, Inr \<lparr>layer1_detections = layer1, layer2_detections = [], verified = False,
                        snapshot_path = None, best_detection = None,
                        rejection_reason = Some ''Snapshot save failed''\<rparr>)
           else
             let p = (case saved of Some q \<Rightarrow> q | None \<Rightarrow> []) in
             (case imread e fs1 p of
                None \<Rightarrow>
                  (fst (delete_snapshot e fs1 p),
                   Inr \<lparr>layer1_detections = layer1, layer2_detections = [], verified = False,
                        snapshot_path = None, best_detection = None,
                        rejection_reason = Some ''Snapshot read failed''\<rparr>)
              | Some snapshot_image \<Rightarrow>
                  let layer2 = snd (detect_objects e snapshot_image LAYER2_CONFIDENCE) in
                  if layer2 = [] then
                    (fst (delete_snapshot e fs1 p),
                     Inr \<lparr>layer1_detections = layer1, layer2_detections = [], verified = False,
                          snapshot_path = None, best_detection = None,
                          rejection_reason = Some ''No Layer 2 detection''\<rparr>)
                  else
                    (case (best_layer1, get_highest_confidence_detection layer2) of
                       (Some b1, Some b2) \<Rightarrow>
                         if class_name b1 \<noteq> class_name b2 then
                           (fst (delete_snapshot e fs1 p),
                            Inr \<lparr>layer1_detections = layer1, layer2_detections = layer2,
                                 verified = False, snapshot_path = None, best_detection = None,
                                 rejection_reason =
                                   Some (''Species mismatch: L1='' @ class_name b1
                                         @ '', L2='' @ class_name b2)\<rparr>)
                         else
                           (fs1,
                            Inr \<lparr>layer1_detections = layer1, layer2_detections = layer2,
                                 verified = True, snapshot_path = Some p,
                                 best_detection =
                                   Some \<lparr>species = class_name b2,
                                         confidence_layer1 = confidence b1,
                                         confidence_layer2 = confidence b2,
                                         bbox_layer1 = bbox b1,
                                         bbox_layer2 = bbox b2\<rparr>,
                                 rejection_reason = None\<rparr>)
                     | _ \<Rightarrow> (fs1, Inl (PyError ''TypeError'')))))"

subsection \<open>A session of verifier calls\<close>









subsection \<open>video_processor.py\<close>

datatype camera_id = CameraIndex int | CameraUrl string

datatype cap_prop = CAP_PROP_FRAME_WIDTH | CAP_PROP_FRAME_HEIGHT | CAP_PROP_FPS

text \<open>
  A \<^verbatim>\<open>cv2.VideoCapture\<close> handle: whether it reports itself open, what the coming reads
  deliver (\<open>None\<close> for a read that fails), and the properties requested with \<^verbatim>\<open>set\<close>.
\<close>

record capture =
  opened :: bool
  stream :: "image option list"
  requested :: "(cap_prop \<times> nat) list"

definition cap_set :: "capture \<Rightarrow> cap_prop \<Rightarrow> nat \<Rightarrow> capture" where
  "cap_set c prop v = c\<lparr>requested := requested c @ [(prop, v)]\<rparr>"

definition cap_read :: "capture \<Rightarrow> image option \<times> capture" where
  "cap_read c =
     (if opened c then
        (case stream c of
           [] \<Rightarrow> (None, c)
         | f # fs \<Rightarrow> (f, c\<lparr>stream := fs\<rparr>))
      else (None, c))"

definition cap_release :: "capture \<Rightarrow> capture" where
  "cap_release c = c\<lparr>opened := False\<rparr>"

text \<open>
  \<^verbatim>\<open>cv2.resize(frame, (w, h))\<close>: a frame of height \<open>h\<close> and width \<open>w\<close>; the interpolation
  that fills it is the parameter \<open>resample\<close>.
\<close>

type_synonym resampler = "image \<Rightarrow> nat \<Rightarrow> nat \<Rightarrow> nat list"

definition cv2_resize :: "resampler \<Rightarrow> image \<Rightarrow> nat \<times> nat \<Rightarrow> image" where
  "cv2_resize resample frame dsize =
     (case dsize of (w, h) \<Rightarrow> \<lparr>height = h, width = w, pixels = resample frame w h\<rparr>)"

text \<open>\<^verbatim>\<open>cv2.VideoCapture(camera_index)\<close>: a handle, open or not, or an exception.\<close>

type_synonym backend = "camera_id \<Rightarrow> py_error + capture"

record webcam_processor =
  camera_index :: camera_id
  cap :: "capture option"
  running :: bool
  fps :: real
  last_time :: real
  frame_count :: nat
  processor_model :: "yolo option"

text \<open>\<open>now\<close> is the reading of \<^verbatim>\<open>time.time()\<close> inside the call.\<close>

definition webcam_init :: "env \<Rightarrow> real \<Rightarrow> camera_id \<Rightarrow> webcam_processor" where
  "webcam_init e now cam =
     \<lparr>camera_index = cam, cap = None, running = False, fps = 0, last_time = now,
      frame_count = 0, processor_model = model e\<rparr>"

definition start :: "backend \<Rightarrow> real \<Rightarrow> webcam_processor \<Rightarrow> bool \<times> webcam_processor" where
  "start open_capture now wp =
     (case open_capture (camera_index wp) of
        Inl err \<Rightarrow> (False, wp)
      | Inr c \<Rightarrow>
          if \<not> opened c then (False, wp\<lparr>cap := Some c\<rparr>)
          else
            let c' = (case camera_index wp of
                        CameraIndex i \<Rightarrow>
                          cap_set (cap_set (cap_set c CAP_PROP_FRAME_WIDTH WEBCAM_WIDTH)
                                     CAP_PROP_FRAME_HEIGHT WEBCAM_HEIGHT)
                            CAP_PROP_FPS WEBCAM_FPS
                      | CameraUrl u \<Rightarrow> c)
            in (True, wp\<lparr>cap := Some c', running := True, last_time := now\<rparr>))"

definition stop :: "webcam_processor \<Rightarrow> webcam_processor" where
  "stop wp = wp\<lparr>running := False, cap := None\<rparr>"

definition is_running :: "webcam_processor \<Rightarrow> bool" where
  "is_running wp = (running wp \<and> (case cap wp of None \<Rightarrow> False | Some c \<Rightarrow> opened c))"

text \<open>
  \<open>read_frame\<close> returns the processor as it leaves it and either the pair
  \<^verbatim>\<open>(success, frame)\<close> or the exception that escapes: the division of the FPS update is
  outside any \<^verbatim>\<open>try\<close> and raises ZeroDivisionError when the clock has not advanced since
  the last sample.
\<close>

definition read_frame ::
  "resampler \<Rightarrow> real \<Rightarrow> webcam_processor
     \<Rightarrow> (py_error + bool \<times> image option) \<times> webcam_processor" where
  "read_frame resample now wp =
     (if \<not> is_running wp then (Inr (False, None), wp)
      else
        case cap wp of
          None \<Rightarrow> (Inr (False, None), wp)
        | Some c \<Rightarrow>
            (case cap_read c of
               (None, c') \<Rightarrow> (Inr (False, None), wp\<lparr>cap := Some c'\<rparr>)
             | (Some frame0, c') \<Rightarrow>
                 let frame = (case camera_index wp of
                                CameraUrl u \<Rightarrow>
                                  if WEBCAM_WIDTH < width frame0 \<or> WEBCAM_HEIGHT < height frame0
                                  then cv2_resize resample frame0 (WEBCAM_WIDTH, WEBCAM_HEIGHT)
                                  else frame0
                              | CameraIndex i \<Rightarrow> frame0);
                     wp1 = wp\<lparr>cap := Some c', frame_count := frame_count wp + 1\<rparr>
                 in if frame_count wp1 mod 10 = 0 then
                      (if now - last_time wp1 = 0 then (Inl (PyError ''ZeroDivisionError''), wp1)
                       else (Inr (True, Some frame),
                             wp1\<lparr>fps := 10 / (now - last_time wp1), last_time := now\<rparr>))
                    else (Inr (True, Some frame), wp1)))"

subsection \<open>A concrete environment for the worked examples\<close>

text \<open>
  The examples run the definitions above on a small stand-in for the opaque parts. An
  image carries one grey value; the codec stores height, width and pixels and rounds every
  pixel down to a multiple of ten when decoding (a lossy round trip); the detector answers
  from the first pixel and keeps the boxes at or above the threshold it is given.
\<close>

definition demo_box :: "real \<Rightarrow> real \<Rightarrow> raw_box" where
  "demo_box c p = \<lparr>box_cls = c, box_conf = p, box_xyxy = (10.5, 20.25, 110.75, 220)\<rparr>"

definition demo_boxes :: "nat \<Rightarrow> raw_box list" where
  "demo_boxes v =
     (if v = 11 then [demo_box 1 0.55]
      else if v = 10 then [demo_box 1 0.42]
      else if v = 33 then [demo_box 2 0.52, demo_box 3 0.6]
      else if v = 30 then [demo_box 0 0.5, demo_box 3 0.45]
      else if v = 40 then [demo_box 3 0.6]
      else if v = 57 then [demo_box 3 0.6]
      else [])"

definition demo_yolo :: yolo where
  "demo_yolo img conf_threshold =
     (case pixels img of
        [] \<Rightarrow> Inl (PyError ''corrupt image buffer'')
      | v # vs \<Rightarrow> Inr [filter (\<lambda>b. conf_threshold \<le> box_conf b) (demo_boxes v)])"

definition demo_encode :: "image \<Rightarrow> py_error + file_data option" where
  "demo_encode img = Inr (Some (height img # width img # pixels img))"

definition demo_decode :: "file_data \<Rightarrow> image option" where
  "demo_decode data =
     (case data of
        h # w # px \<Rightarrow> Some \<lparr>height = h, width = w, pixels = map (\<lambda>v. v div 10 * 10) px\<rparr>
      | _ \<Rightarrow> None)"

definition demo_env :: env where
  "demo_env = \<lparr>model = Some demo_yolo, snapshot_dir = ''snapshots'',
               imencode = demo_encode, imdecode = demo_decode,
               unlink_error = (\<lambda>p. None)\<rparr>"

text \<open>The same environment on a snapshot directory whose files cannot be removed.\<close>

definition locked_env :: env where
  "locked_env = \<lparr>model = Some demo_yolo, snapshot_dir = ''snapshots'',
                 imencode = demo_encode, imdecode = demo_decode,
                 unlink_error = (\<lambda>p. Some (PyError ''PermissionError''))\<rparr>"

definition demo_image :: "nat \<Rightarrow> image" where
  "demo_image v = \<lparr>height = 1, width = 1, pixels = [v]\<rparr>"

definition corrupt_image :: image where
  "corrupt_image = \<lparr>height = 0, width = 0, pixels = []\<rparr>"

definition demo_timestamp :: string where
  "demo_timestamp = ''20240301_101500_123''"

definition tiger60 :: detection where
  "tiger60 = \<lparr>class_id = 3, class_name = ''Tiger'', confidence = 0.6, bbox = (10, 20, 110, 220)\<rparr>"

definition bear80 :: detection where
  "bear80 = \<lparr>class_id = 0, class_name = ''Bear'', confidence = 0.8, bbox = (5, 5, 50, 50)\<rparr>"

definition leopard80 :: detection where
  "leopard80 = \<lparr>class_id = 2, class_name = ''Leopard'', confidence = 0.8, bbox = (7, 7, 70, 70)\<rparr>"

definition elephant55 :: detection where
  "elephant55 = \<lparr>class_id = 1, class_name = ''Elephant'', confidence = 0.55, bbox = (10, 20, 110, 220)\<rparr>"

definition elephant42 :: detection where
  "elephant42 = \<lparr>class_id = 1, class_name = ''Elephant'', confidence = 0.42, bbox = (10, 20, 110, 220)\<rparr>"

definition leopard52 :: detection where
  "leopard52 = \<lparr>class_id = 2, class_name = ''Leopard'', confidence = 0.52, bbox = (10, 20, 110, 220)\<rparr>"

definition bear50 :: detection where
  "bear50 = \<lparr>class_id = 0, class_name = ''Bear'', confidence = 0.5, bbox = (10, 20, 110, 220)\<rparr>"

definition tiger45 :: detection where
  "tiger45 = \<lparr>class_id = 3, class_name = ''Tiger'', confidence = 0.45, bbox = (10, 20, 110, 220)\<rparr>"

text \<open>
  The images re-read from the snapshots of the two examples of the specification, and the
  results of the two runs.
\<close>

definition reread_33 :: image where
  "reread_33 = \<lparr>height = 1, width = 1, pixels = [30]\<rparr>"

definition reread_11 :: image where
  "reread_11 = \<lparr>height = 1, width = 1, pixels = [10]\<rparr>"


definition elephant_path :: path where
  "elephant_path = ''snapshots/20240301_101500_123_Elephant_55_verification.jpg''"

definition tiger_path :: path where
  "tiger_path = ''snapshots/20240301_101500_123_Tiger_60_verification.jpg''"

definition demo_verified_result :: verification_result where
  "demo_verified_result =
     \<lparr>layer1_detections = [elephant55], layer2_detections = [elephant42], verified = True,
      snapshot_path = Some elephant_path,
      best_detection = Some \<lparr>species = ''Elephant'', confidence_layer1 = 0.55,
         confidence_layer2 = 0.42, bbox_layer1 = (10, 20, 110, 220),
         bbox_layer2 = (10, 20, 110, 220)\<rparr>,
      rejection_reason = None\<rparr>"

definition demo_mismatch_result :: verification_result where
  "demo_mismatch_result =
     \<lparr>layer1_detections = [leopard52, tiger60], layer2_detections = [bear50, tiger45],
      verified = False, snapshot_path = None, best_detection = None,
      rejection_reason = Some ''Species mismatch: L1=Tiger, L2=Bear''\<rparr>"






text \<open>A capture backend whose device is busy: the handle comes back unopened.\<close>

definition busy_backend :: backend where
  "busy_backend cam = Inr \<lparr>opened = False, stream = [], requested = []\<rparr>"

text \<open>A capture backend whose constructor raises.\<close>

definition raising_backend :: backend where
  "raising_backend cam = Inl (PyError ''cv2.error'')"

definition blank_resample :: resampler where
  "blank_resample frame w h = []"

definition frame_320x240 :: image where
  "frame_320x240 = \<lparr>height = 240, width = 320, pixels = []\<rparr>"

definition frame_1280x720 :: image where
  "frame_1280x720 = \<lparr>height = 720, width = 1280, pixels = []\<rparr>"

text \<open>An open handle with one frame to deliver, and a running processor that holds it.\<close>

definition one_frame :: "image \<Rightarrow> capture" where
  "one_frame frame = \<lparr>opened = True, stream = [Some frame], requested = []\<rparr>"

definition streaming :: "camera_id \<Rightarrow> image \<Rightarrow> webcam_processor" where
  "streaming cam frame =
     \<lparr>camera_index = cam,
      cap = Some (one_frame frame),
      running = True, fps = 0, last_time = 0, frame_count = 0, processor_model = None\<rparr>"

section \<open>Properties\<close>

subsection \<open>Auxiliary facts\<close>

lemmas demo_defs = demo_env_def locked_env_def demo_yolo_def demo_image_def demo_boxes_def
  demo_box_def demo_encode_def demo_decode_def demo_timestamp_def corrupt_image_def

lemmas run_defs = verify_detection_2layer_def detect_objects_def save_snapshot_def
  delete_snapshot_def unlink_def path_exists_def imwrite_def imread_def
  snapshot_filepath_def snapshot_filename_def get_highest_confidence_detection_def
  py_max_key_def parse_box_def py_int_def str_int_def str_nat.simps digit_char_def
  CLASS_NAMES_def LAYER1_CONFIDENCE_def LAYER2_CONFIDENCE_def Let_def

lemma py_max_key_step:
  "py_max_key k x (y # ys) = py_max_key k (if k x < k y then y else x) ys"
  by (simp add: py_max_key_def)

text \<open>
  The result of \<open>py_max_key\<close> splits the list: everything before it has a strictly
  smaller key, nothing after it has a larger one.
\<close>

lemma py_max_key_first_max:
  "\<exists>pre post. x # xs = pre @ py_max_key k x xs # post
     \<and> (\<forall>a\<in>set pre. k a < k (py_max_key k x xs))
     \<and> (\<forall>a\<in>set post. k a \<le> k (py_max_key k x xs))"
proof (induction xs arbitrary: x)
  case Nil
  have "[x] = [] @ x # [] \<and> (\<forall>a\<in>set []. k a < k x) \<and> (\<forall>a\<in>set []. k a \<le> k x)"
    by simp
  then show ?case unfolding py_max_key_def foldl_Nil by blast
next
  case (Cons y ys)
  define z where "z = (if k x < k y then y else x)"
  define m where "m = py_max_key k z ys"
  have step: "py_max_key k x (y # ys) = m"
    by (simp add: py_max_key_step z_def m_def)
  from Cons.IH [of z] obtain pre post where
    d: "z # ys = pre @ m # post"
    and lt: "\<forall>a\<in>set pre. k a < k m"
    and le: "\<forall>a\<in>set post. k a \<le> k m"
    unfolding m_def by blast
  have zm: "k z \<le> k m"
  proof (cases pre)
    case Nil
    with d have "z = m" by simp
    then show ?thesis by simp
  next
    case (Cons p ps)
    with d have "p = z" by simp
    with Cons lt show ?thesis by auto
  qed
  have "\<exists>pre' post'. x # y # ys = pre' @ m # post'
     \<and> (\<forall>a\<in>set pre'. k a < k m) \<and> (\<forall>a\<in>set post'. k a \<le> k m)"
  proof (cases "k x < k y")
    case True
    then have zy: "z = y" by (simp add: z_def)
    from True zm zy have "k x < k m" by simp
    with d lt le zy have
      "x # y # ys = (x # pre) @ m # post
        \<and> (\<forall>a\<in>set (x # pre). k a < k m) \<and> (\<forall>a\<in>set post. k a \<le> k m)"
      by simp
    then show ?thesis by blast
  next
    case False
    then have zx: "z = x" by (simp add: z_def)
    show ?thesis
    proof (cases pre)
      case Nil
      with d zx have mx: "m = x" and p: "post = ys" by simp_all
      from False le mx p have
        "x # y # ys = [] @ m # (y # post)
          \<and> (\<forall>a\<in>set []. k a < k m) \<and> (\<forall>a\<in>set (y # post). k a \<le> k m)"
        by auto
      then show ?thesis by blast
    next
      case (Cons p ps)
      with d zx have px: "p = x" and ys: "ys = ps @ m # post" by simp_all
      from Cons px lt have "k x < k m" by simp
      with False have "k y < k m" by simp
      with Cons px lt le ys have
        "x # y # ys = (x # y # ps) @ m # post
          \<and> (\<forall>a\<in>set (x # y # ps). k a < k m) \<and> (\<forall>a\<in>set post. k a \<le> k m)"
        by auto
      then show ?thesis by blast
    qed
  qed
  then show ?case unfolding step .
qed

lemma highest_None_iff: "get_highest_confidence_detection ds = None \<longleftrightarrow> ds = []"
  by (simp add: get_highest_confidence_detection_def split: list.splits)

lemma snapshot_filepath_nonempty: "snapshot_filepath e t d s \<noteq> []"
  by (simp add: snapshot_filepath_def)

lemma save_snapshot_path:
  "save_snapshot e fs timestamp img (Some b) source = (fs1, Some p) \<Longrightarrow> p \<noteq> []"
  by (auto simp: save_snapshot_def Let_def snapshot_filepath_nonempty
      split: sum.splits prod.splits)

text \<open>
  The file system that \<open>delete_snapshot\<close> leaves: as it was when the file is there and
  its removal is refused, without the file otherwise.
\<close>

lemma delete_snapshot_fst:
  "fst (delete_snapshot e fs p) =
     (if path_exists fs p \<and> unlink_error e p \<noteq> None then fs else fs(p := None))"
  by (auto simp: delete_snapshot_def unlink_def path_exists_def split: option.splits)

lemma imread_exists: "imread e fs p = Some x \<Longrightarrow> path_exists fs p"
  by (auto simp: imread_def path_exists_def split: option.splits)

text \<open>A reason built like the mismatch message contains both names.\<close>

lemma names_both: "sublist a (p @ a @ q @ b) \<and> sublist b (p @ a @ q @ b)"
proof
  show "sublist a (p @ a @ q @ b)" by (rule sublist_appendI)
  have "sublist b ((p @ a @ q) @ b @ [])" by (rule sublist_appendI)
  then show "sublist b (p @ a @ q @ b)" by simp
qed

subsection \<open>The worked examples, evaluated\<close>

lemma demo_layer1:
  "snd (detect_objects demo_env (demo_image 11) LAYER1_CONFIDENCE) = [elephant55]"
  "snd (detect_objects demo_env (demo_image 33) LAYER1_CONFIDENCE) = [leopard52, tiger60]"
  "snd (detect_objects locked_env (demo_image 33) LAYER1_CONFIDENCE) = [leopard52, tiger60]"
  by (simp_all add: demo_defs run_defs elephant55_def leopard52_def tiger60_def)

lemma demo_layer2:
  "snd (detect_objects demo_env reread_11 LAYER2_CONFIDENCE) = [elephant42]"
  "snd (detect_objects demo_env reread_33 LAYER2_CONFIDENCE) = [bear50, tiger45]"
  "snd (detect_objects locked_env reread_33 LAYER2_CONFIDENCE) = [bear50, tiger45]"
  by (simp_all add: demo_defs run_defs reread_11_def reread_33_def elephant42_def bear50_def
      tiger45_def)

lemma demo_highest:
  "get_highest_confidence_detection [elephant55] = Some elephant55"
  "get_highest_confidence_detection [elephant42] = Some elephant42"
  "get_highest_confidence_detection [leopard52, tiger60] = Some tiger60"
  "get_highest_confidence_detection [bear50, tiger45] = Some bear50"
  by (simp_all add: get_highest_confidence_detection_def py_max_key_def leopard52_def
      tiger60_def bear50_def tiger45_def)

lemma demo_saves:
  "save_snapshot demo_env Map.empty demo_timestamp (demo_image 11) (Some elephant55) ''verification''
     = ([elephant_path \<mapsto> [1, 1, 11]], Some elephant_path)"
  "save_snapshot demo_env Map.empty demo_timestamp (demo_image 33) (Some tiger60) ''verification''
     = ([tiger_path \<mapsto> [1, 1, 33]], Some tiger_path)"
  "save_snapshot locked_env Map.empty demo_timestamp (demo_image 33) (Some tiger60) ''verification''
     = ([tiger_path \<mapsto> [1, 1, 33]], Some tiger_path)"
  by (simp_all add: demo_defs run_defs elephant55_def tiger60_def elephant_path_def
      tiger_path_def)

lemma demo_rereads:
  "imread demo_env [elephant_path \<mapsto> [1, 1, 11]] elephant_path = Some reread_11"
  "imread demo_env [tiger_path \<mapsto> [1, 1, 33]] tiger_path = Some reread_33"
  "imread locked_env [tiger_path \<mapsto> [1, 1, 33]] tiger_path = Some reread_33"
  by (simp_all add: demo_defs run_defs reread_11_def reread_33_def)

lemma demo_verified_run:
  "verify_detection_2layer demo_env Map.empty demo_timestamp (demo_image 11) =
     ([elephant_path \<mapsto> [1, 1, 11]], Inr demo_verified_result)"
  by (simp add: demo_defs run_defs demo_verified_result_def elephant_path_def elephant55_def
      elephant42_def)

lemma demo_mismatch_run:
  "verify_detection_2layer demo_env Map.empty demo_timestamp (demo_image 33) =
     (Map.empty, Inr demo_mismatch_result)"
  by (simp add: demo_defs run_defs demo_mismatch_result_def leopard52_def tiger60_def bear50_def
      tiger45_def)

lemma locked_mismatch_run:
  "verify_detection_2layer locked_env Map.empty demo_timestamp (demo_image 33) =
     ([tiger_path \<mapsto> [1, 1, 33]], Inr demo_mismatch_result)"
  by (simp add: demo_defs run_defs demo_mismatch_result_def leopard52_def tiger60_def bear50_def
      tiger45_def tiger_path_def)





subsection \<open>Detector\<close>

text \<open>
  Claim C1. For every list of detections \<open>D\<close>, \<open>get_highest_confidence_detection\<close> returns
  null exactly on the empty list, and otherwise an element \<open>r\<close> of \<open>D\<close> at a position such
  that every element before it has a strictly smaller confidence and no element after it
  has a larger one: the element of maximal confidence, and the first of them when several
  share the maximum.
\<close>

theorem highest_confidence_first_maximum:
  "case get_highest_confidence_detection D of
     None \<Rightarrow> D = []
   | Some r \<Rightarrow> \<exists>pre post. D = pre @ r # post
       \<and> (\<forall>a\<in>set pre. confidence a < confidence r)
       \<and> (\<forall>a\<in>set post. confidence a \<le> confidence r)"
proof (cases D)
  case Nil
  then show ?thesis by (simp add: get_highest_confidence_detection_def)
next
  case (Cons d ds)
  with py_max_key_first_max [of d ds confidence] show ?thesis
    by (simp add: get_highest_confidence_detection_def)
qed

text \<open>
  The theorem at a list where two detections share the maximum 0.8: the earlier one, the
  bear, is returned.
\<close>

theorem highest_confidence_first_maximum_witness:
  "get_highest_confidence_detection [tiger60, bear80, leopard80] = Some bear80
   \<and> (\<exists>pre post. [tiger60, bear80, leopard80] = pre @ bear80 # post
       \<and> (\<forall>a\<in>set pre. confidence a < confidence bear80)
       \<and> (\<forall>a\<in>set post. confidence a \<le> confidence bear80))"
  using highest_confidence_first_maximum [of "[tiger60, bear80, leopard80]"]
  by (simp add: get_highest_confidence_detection_def py_max_key_def tiger60_def bear80_def
      leopard80_def)

text \<open>
  Claim C9, as the code has it. When the inference call of a loaded model raises,
  \<open>detect_objects\<close> catches the exception, shows its text through the error display of
  the user interface and returns the empty detection list; no error reaches the caller.
\<close>

theorem inference_error_swallowed:
  "model e = Some m \<Longrightarrow> m img conf_threshold = Inl err \<Longrightarrow>
     detect_objects e img conf_threshold = ([''Detection error: '' @ error_text err], [])"
  by (simp add: detect_objects_def)

text \<open>The stand-in detector raises on an image without pixels.\<close>

theorem inference_error_swallowed_witness:
  "model demo_env = Some demo_yolo
   \<and> demo_yolo corrupt_image LAYER1_CONFIDENCE = Inl (PyError ''corrupt image buffer'')
   \<and> detect_objects demo_env corrupt_image LAYER1_CONFIDENCE
       = ([''Detection error: corrupt image buffer''], [])"
  using inference_error_swallowed [of demo_env demo_yolo corrupt_image LAYER1_CONFIDENCE
      "PyError ''corrupt image buffer''"]
  by (simp add: demo_env_def demo_yolo_def corrupt_image_def)

text \<open>
  Claim C9, as stated, fails. On a corrupt image buffer the inference raises, and the
  caller receives the empty detection list, the same value as for an image in which
  nothing is detected; the verifier then rejects both images with the same result.
\<close>

theorem inference_error_propagates_counterexample:
  "demo_yolo corrupt_image LAYER1_CONFIDENCE = Inl (PyError ''corrupt image buffer'')
   \<and> snd (detect_objects demo_env corrupt_image LAYER1_CONFIDENCE) = []
   \<and> snd (detect_objects demo_env corrupt_image LAYER1_CONFIDENCE)
       = snd (detect_objects demo_env (demo_image 0) LAYER1_CONFIDENCE)
   \<and> snd (verify_detection_2layer demo_env Map.empty demo_timestamp corrupt_image)
       = snd (verify_detection_2layer demo_env Map.empty demo_timestamp (demo_image 0))"
  by (simp add: detect_objects_def demo_env_def demo_yolo_def corrupt_image_def demo_image_def
      demo_boxes_def verify_detection_2layer_def)

subsection \<open>Snapshot store\<close>

text \<open>
  Claim C6, as the code has it. For every path whose file exists and whose removal the
  file system does not refuse, \<open>delete_snapshot\<close> returns true and leaves the file absent,
  and a second call on the same path returns false and changes nothing. For a path whose
  file exists and whose removal raises, it returns false and the file stays. On a path
  without a file it returns false and changes nothing. It raises in none of the cases.
\<close>

theorem delete_snapshot_unless_refused:
  "(path_exists fs p \<and> unlink_error e p = None \<longrightarrow>
      delete_snapshot e fs p = (fs(p := None), True)
      \<and> \<not> path_exists (fst (delete_snapshot e fs p)) p
      \<and> delete_snapshot e (fst (delete_snapshot e fs p)) p = (fst (delete_snapshot e fs p), False))
   \<and> (path_exists fs p \<and> unlink_error e p \<noteq> None \<longrightarrow>
      delete_snapshot e fs p = (fs, False))
   \<and> (\<not> path_exists fs p \<longrightarrow> delete_snapshot e fs p = (fs, False))"
  by (auto simp: delete_snapshot_def unlink_def path_exists_def split: option.splits)

text \<open>Deleting the only file of a store, then deleting it again.\<close>

theorem delete_snapshot_unless_refused_witness:
  "path_exists [''snapshots/a.jpg'' \<mapsto> [1, 2, 3]] ''snapshots/a.jpg''
   \<and> unlink_error demo_env ''snapshots/a.jpg'' = None
   \<and> delete_snapshot demo_env [''snapshots/a.jpg'' \<mapsto> [1, 2, 3]] ''snapshots/a.jpg''
       = (Map.empty, True)
   \<and> delete_snapshot demo_env Map.empty ''snapshots/a.jpg'' = (Map.empty, False)
   \<and> \<not> path_exists Map.empty ''snapshots/a.jpg''"
  using delete_snapshot_unless_refused
      [of "[''snapshots/a.jpg'' \<mapsto> [1, 2, 3]]" "''snapshots/a.jpg''" demo_env]
    delete_snapshot_unless_refused [of "Map.empty" "''snapshots/a.jpg''" demo_env]
  by (simp add: path_exists_def demo_env_def)

text \<open>
  Claim C6, as stated, fails. In a directory whose files cannot be removed the file exists,
  \<^verbatim>\<open>unlink\<close> raises PermissionError, and \<open>delete_snapshot\<close> returns false with the file
  still there.
\<close>

theorem delete_snapshot_refused_counterexample:
  "path_exists [''snapshots/a.jpg'' \<mapsto> [1, 2, 3]] ''snapshots/a.jpg''
   \<and> delete_snapshot locked_env [''snapshots/a.jpg'' \<mapsto> [1, 2, 3]] ''snapshots/a.jpg''
       = ([''snapshots/a.jpg'' \<mapsto> [1, 2, 3]], False)
   \<and> path_exists
        (fst (delete_snapshot locked_env [''snapshots/a.jpg'' \<mapsto> [1, 2, 3]] ''snapshots/a.jpg''))
        ''snapshots/a.jpg''"
  by (simp add: delete_snapshot_def unlink_def path_exists_def locked_env_def)

subsection \<open>Verifier: single calls\<close>

text \<open>
  Claim C2, as the code has it. For every image on which the Layer-1 pass returns no
  detections, \<open>verify_detection_2layer\<close> returns a result with verified=false and the
  rejection reason \<^verbatim>\<open>No Layer 1 detection\<close>, and leaves the file system as it found it: no
  snapshot file is created.
\<close>

theorem no_layer1_detection_rejects:
  "snd (detect_objects e img LAYER1_CONFIDENCE) = [] \<Longrightarrow>
     verify_detection_2layer e fs timestamp img =
       (fs, Inr \<lparr>layer1_detections = [], layer2_detections = [], verified = False,
                 snapshot_path = None, best_detection = None,
                 rejection_reason = Some ''No Layer 1 detection''\<rparr>)"
  by (simp add: verify_detection_2layer_def)

text \<open>An image in which the stand-in detector finds nothing, on an empty store.\<close>

theorem no_layer1_detection_rejects_witness:
  "snd (detect_objects demo_env (demo_image 0) LAYER1_CONFIDENCE) = []
   \<and> verify_detection_2layer demo_env Map.empty demo_timestamp (demo_image 0) =
       (Map.empty, Inr \<lparr>layer1_detections = [], layer2_detections = [], verified = False,
                 snapshot_path = None, best_detection = None,
                 rejection_reason = Some ''No Layer 1 detection''\<rparr>)"
proof -
  have h: "snd (detect_objects demo_env (demo_image 0) LAYER1_CONFIDENCE) = []"
    by (simp add: detect_objects_def demo_env_def demo_yolo_def demo_image_def demo_boxes_def)
  from h no_layer1_detection_rejects [OF h, of Map.empty demo_timestamp] show ?thesis by simp
qed

text \<open>
  Claim C2, as stated, fails on the text of the reason: the string returned is capitalised
  and differs from \<^verbatim>\<open>no layer 1 detection\<close>.
\<close>

theorem no_layer1_reason_lowercase_counterexample:
  "snd (detect_objects demo_env (demo_image 0) LAYER1_CONFIDENCE) = []
   \<and> rejection_reason
        (projr (snd (verify_detection_2layer demo_env Map.empty demo_timestamp (demo_image 0))))
       \<noteq> Some ''no layer 1 detection''"
  by (simp add: detect_objects_def demo_env_def demo_yolo_def demo_image_def demo_boxes_def
      verify_detection_2layer_def)

text \<open>
  Claim C10. Every call of \<open>verify_detection_2layer\<close> returns a result (no exception
  escapes), and in that result verified is true exactly when the rejection reason is null;
  when verified is false the snapshot path and the best detection are both null, also on
  the rejection paths that had saved a snapshot; when verified is true both are non-null.
\<close>

theorem verification_result_well_formed:
  "\<exists>r. snd (verify_detection_2layer e fs timestamp img) = Inr r
     \<and> (verified r \<longleftrightarrow> rejection_reason r = None)
     \<and> (\<not> verified r \<longrightarrow> snapshot_path r = None \<and> best_detection r = None)
     \<and> (verified r \<longrightarrow> snapshot_path r \<noteq> None \<and> best_detection r \<noteq> None)"
  by (auto simp: verify_detection_2layer_def Let_def highest_None_iff
      split: prod.splits option.splits)

text \<open>A verified run and a run rejected after its snapshot had been saved.\<close>

theorem verification_result_well_formed_witness:
  "snd (verify_detection_2layer demo_env Map.empty demo_timestamp (demo_image 11))
     = Inr demo_verified_result
   \<and> verified demo_verified_result \<and> rejection_reason demo_verified_result = None
   \<and> snapshot_path demo_verified_result \<noteq> None \<and> best_detection demo_verified_result \<noteq> None
   \<and> snd (verify_detection_2layer demo_env Map.empty demo_timestamp (demo_image 33))
     = Inr demo_mismatch_result
   \<and> \<not> verified demo_mismatch_result \<and> rejection_reason demo_mismatch_result \<noteq> None
   \<and> snapshot_path demo_mismatch_result = None \<and> best_detection demo_mismatch_result = None"
  using verification_result_well_formed [of demo_env Map.empty demo_timestamp "demo_image 11"]
    verification_result_well_formed [of demo_env Map.empty demo_timestamp "demo_image 33"]
  by (auto simp: demo_verified_run demo_mismatch_run demo_verified_result_def
      demo_mismatch_result_def)

text \<open>
  Claim C3, as the code has it. For every verification run in which Layer 1 on the image
  and Layer 2 on the image re-read from the saved snapshot both produce detections and the
  highest-confidence Layer-2 detection differs in species from the highest-confidence
  Layer-1 detection, \<open>verify_detection_2layer\<close> returns verified=false, both detection
  lists and a rejection reason that names both species. It calls \<open>delete_snapshot\<close> on the
  saved file and does not look at the outcome: after the call the file, which was on disk
  after the save, no longer exists, unless the file system refuses its removal; then it
  stays and the result is the same.
\<close>

theorem species_mismatch_rejects:
  assumes l1: "get_highest_confidence_detection (snd (detect_objects e img LAYER1_CONFIDENCE)) = Some b1"
    and save: "save_snapshot e fs timestamp img (Some b1) ''verification'' = (fs1, Some p)"
    and rd: "imread e fs1 p = Some snapshot_image"
    and l2: "get_highest_confidence_detection
               (snd (detect_objects e snapshot_image LAYER2_CONFIDENCE)) = Some b2"
    and diff: "class_name b1 \<noteq> class_name b2"
  shows "verify_detection_2layer e fs timestamp img =
      (if unlink_error e p = None then fs1(p := None) else fs1,
       Inr \<lparr>layer1_detections = snd (detect_objects e img LAYER1_CONFIDENCE),
            layer2_detections = snd (detect_objects e snapshot_image LAYER2_CONFIDENCE),
            verified = False, snapshot_path = None, best_detection = None,
            rejection_reason = Some (''Species mismatch: L1='' @ class_name b1
                                      @ '', L2='' @ class_name b2)\<rparr>)
    \<and> sublist (class_name b1) (''Species mismatch: L1='' @ class_name b1 @ '', L2='' @ class_name b2)
    \<and> sublist (class_name b2) (''Species mismatch: L1='' @ class_name b1 @ '', L2='' @ class_name b2)
    \<and> path_exists fs1 p
    \<and> (path_exists (fst (verify_detection_2layer e fs timestamp img)) p
          \<longleftrightarrow> unlink_error e p \<noteq> None)"
proof -
  from l1 have n1: "snd (detect_objects e img LAYER1_CONFIDENCE) \<noteq> []"
    by (auto simp: highest_None_iff [symmetric])
  from l2 have n2: "snd (detect_objects e snapshot_image LAYER2_CONFIDENCE) \<noteq> []"
    by (auto simp: highest_None_iff [symmetric])
  have ex: "path_exists fs1 p" using rd by (rule imread_exists)
  have run: "verify_detection_2layer e fs timestamp img =
      (if unlink_error e p = None then fs1(p := None) else fs1,
       Inr \<lparr>layer1_detections = snd (detect_objects e img LAYER1_CONFIDENCE),
            layer2_detections = snd (detect_objects e snapshot_image LAYER2_CONFIDENCE),
            verified = False, snapshot_path = None, best_detection = None,
            rejection_reason = Some (''Species mismatch: L1='' @ class_name b1
                                      @ '', L2='' @ class_name b2)\<rparr>)"
    using n1 n2 l1 l2 save rd diff ex save_snapshot_path [OF save]
    by (simp add: verify_detection_2layer_def Let_def delete_snapshot_fst)
  have gone: "path_exists (fst (verify_detection_2layer e fs timestamp img)) p
          \<longleftrightarrow> unlink_error e p \<noteq> None"
    using ex unfolding run by (simp add: path_exists_def)
  from run gone ex names_both show ?thesis by blast
qed

text \<open>
  The specification's example: Layer 1 finds a tiger at 0.6 (ahead of a leopard at 0.52),
  Layer 2 on the saved snapshot finds a bear at 0.5 (ahead of a tiger at 0.45); the file
  system lets the snapshot go.
\<close>

theorem species_mismatch_rejects_witness:
  "get_highest_confidence_detection
      (snd (detect_objects demo_env (demo_image 33) LAYER1_CONFIDENCE)) = Some tiger60
   \<and> save_snapshot demo_env Map.empty demo_timestamp (demo_image 33) (Some tiger60) ''verification''
        = ([tiger_path \<mapsto> [1, 1, 33]], Some tiger_path)
   \<and> imread demo_env [tiger_path \<mapsto> [1, 1, 33]] tiger_path = Some reread_33
   \<and> get_highest_confidence_detection
        (snd (detect_objects demo_env reread_33 LAYER2_CONFIDENCE)) = Some bear50
   \<and> class_name tiger60 \<noteq> class_name bear50
   \<and> verify_detection_2layer demo_env Map.empty demo_timestamp (demo_image 33)
        = (Map.empty, Inr demo_mismatch_result)
   \<and> rejection_reason demo_mismatch_result = Some ''Species mismatch: L1=Tiger, L2=Bear''
   \<and> \<not> path_exists
          (fst (verify_detection_2layer demo_env Map.empty demo_timestamp (demo_image 33)))
          tiger_path"
proof -
  have l1: "get_highest_confidence_detection
      (snd (detect_objects demo_env (demo_image 33) LAYER1_CONFIDENCE)) = Some tiger60"
    by (simp add: demo_layer1 demo_highest)
  have l2: "get_highest_confidence_detection
      (snd (detect_objects demo_env reread_33 LAYER2_CONFIDENCE)) = Some bear50"
    by (simp add: demo_layer2 demo_highest)
  have diff: "class_name tiger60 \<noteq> class_name bear50"
    by (simp add: tiger60_def bear50_def)
  have u: "unlink_error demo_env tiger_path = None"
    by (simp add: demo_env_def)
  from species_mismatch_rejects [OF l1 demo_saves(2) demo_rereads(2) l2 diff]
    l1 l2 diff u demo_saves(2) demo_rereads(2)
  show ?thesis by (simp add: demo_mismatch_run demo_mismatch_result_def)
qed

text \<open>
  Claim C3, as stated, fails on its last part. The same run in a directory whose files
  cannot be removed: the result is the mismatch rejection, and the snapshot saved during
  the run still exists after the call.
\<close>

theorem species_mismatch_leaves_file_counterexample:
  "get_highest_confidence_detection
      (snd (detect_objects locked_env (demo_image 33) LAYER1_CONFIDENCE)) = Some tiger60
   \<and> save_snapshot locked_env Map.empty demo_timestamp (demo_image 33) (Some tiger60) ''verification''
        = ([tiger_path \<mapsto> [1, 1, 33]], Some tiger_path)
   \<and> get_highest_confidence_detection
        (snd (detect_objects locked_env reread_33 LAYER2_CONFIDENCE)) = Some bear50
   \<and> class_name tiger60 \<noteq> class_name bear50
   \<and> snd (verify_detection_2layer locked_env Map.empty demo_timestamp (demo_image 33))
        = Inr demo_mismatch_result
   \<and> path_exists
        (fst (verify_detection_2layer locked_env Map.empty demo_timestamp (demo_image 33)))
        tiger_path"
proof -
  have diff: "class_name tiger60 \<noteq> class_name bear50"
    by (simp add: tiger60_def bear50_def)
  have there: "path_exists [tiger_path \<mapsto> [1, 1, 33]] tiger_path"
    by (simp add: path_exists_def)
  from diff there show ?thesis
    by (simp add: demo_layer1 demo_layer2 demo_highest demo_saves locked_mismatch_run)
qed

text \<open>
  Claim C4. For every verification run in which Layer 1 on the image and Layer 2 on the
  image re-read from the saved snapshot both produce detections and their
  highest-confidence detections agree on species, \<open>verify_detection_2layer\<close> returns
  verified=true and no rejection reason, both detection lists, the path of the snapshot,
  whose file still exists after the call and still reads as the image Layer 2 saw, and a
  best detection that combines the species with the confidences and bounding boxes of the
  two highest-confidence detections.
\<close>

theorem species_match_verifies:
  assumes l1: "get_highest_confidence_detection (snd (detect_objects e img LAYER1_CONFIDENCE)) = Some b1"
    and save: "save_snapshot e fs timestamp img (Some b1) ''verification'' = (fs1, Some p)"
    and rd: "imread e fs1 p = Some snapshot_image"
    and l2: "get_highest_confidence_detection
               (snd (detect_objects e snapshot_image LAYER2_CONFIDENCE)) = Some b2"
    and same: "class_name b1 = class_name b2"
  shows "verify_detection_2layer e fs timestamp img =
      (fs1,
       Inr \<lparr>layer1_detections = snd (detect_objects e img LAYER1_CONFIDENCE),
            layer2_detections = snd (detect_objects e snapshot_image LAYER2_CONFIDENCE),
            verified = True, snapshot_path = Some p,
            best_detection = Some \<lparr>species = class_name b2,
               confidence_layer1 = confidence b1, confidence_layer2 = confidence b2,
               bbox_layer1 = bbox b1, bbox_layer2 = bbox b2\<rparr>,
            rejection_reason = None\<rparr>)
    \<and> path_exists (fst (verify_detection_2layer e fs timestamp img)) p
    \<and> imread e (fst (verify_detection_2layer e fs timestamp img)) p = Some snapshot_image"
proof -
  from l1 have n1: "snd (detect_objects e img LAYER1_CONFIDENCE) \<noteq> []"
    by (auto simp: highest_None_iff [symmetric])
  from l2 have n2: "snd (detect_objects e snapshot_image LAYER2_CONFIDENCE) \<noteq> []"
    by (auto simp: highest_None_iff [symmetric])
  have ex: "path_exists fs1 p" using rd by (rule imread_exists)
  have run: "verify_detection_2layer e fs timestamp img =
      (fs1,
       Inr \<lparr>layer1_detections = snd (detect_objects e img LAYER1_CONFIDENCE),
            layer2_detections = snd (detect_objects e snapshot_image LAYER2_CONFIDENCE),
            verified = True, snapshot_path = Some p,
            best_detection = Some \<lparr>species = class_name b2,
               confidence_layer1 = confidence b1, confidence_layer2 = confidence b2,
               bbox_layer1 = bbox b1, bbox_layer2 = bbox b2\<rparr>,
            rejection_reason = None\<rparr>)"
    using n1 n2 l1 l2 save rd same save_snapshot_path [OF save]
    by (simp add: verify_detection_2layer_def Let_def)
  from run ex rd show ?thesis by simp
qed

text \<open>
  The specification's example: both layers find an elephant, at 0.55 on the image and at
  0.42 on the snapshot.
\<close>

theorem species_match_verifies_witness:
  "get_highest_confidence_detection
      (snd (detect_objects demo_env (demo_image 11) LAYER1_CONFIDENCE)) = Some elephant55
   \<and> save_snapshot demo_env Map.empty demo_timestamp (demo_image 11) (Some elephant55) ''verification''
        = ([elephant_path \<mapsto> [1, 1, 11]], Some elephant_path)
   \<and> imread demo_env [elephant_path \<mapsto> [1, 1, 11]] elephant_path = Some reread_11
   \<and> get_highest_confidence_detection
        (snd (detect_objects demo_env reread_11 LAYER2_CONFIDENCE)) = Some elephant42
   \<and> class_name elephant55 = class_name elephant42
   \<and> verify_detection_2layer demo_env Map.empty demo_timestamp (demo_image 11)
        = ([elephant_path \<mapsto> [1, 1, 11]], Inr demo_verified_result)
   \<and> verified demo_verified_result
   \<and> snapshot_path demo_verified_result = Some elephant_path
   \<and> path_exists
        (fst (verify_detection_2layer demo_env Map.empty demo_timestamp (demo_image 11)))
        elephant_path"
proof -
  have l1: "get_highest_confidence_detection
      (snd (detect_objects demo_env (demo_image 11) LAYER1_CONFIDENCE)) = Some elephant55"
    by (simp add: demo_layer1 demo_highest)
  have l2: "get_highest_confidence_detection
      (snd (detect_objects demo_env reread_11 LAYER2_CONFIDENCE)) = Some elephant42"
    by (simp add: demo_layer2 demo_highest)
  have same: "class_name elephant55 = class_name elephant42"
    by (simp add: elephant55_def elephant42_def)
  from species_match_verifies [OF l1 demo_saves(1) demo_rereads(1) l2 same]
    l1 l2 same demo_saves(1) demo_rereads(1)
  show ?thesis by (simp add: demo_verified_run demo_verified_result_def)
qed

subsection \<open>Verifier: the snapshot invariant over a session\<close>












subsection \<open>Frame source\<close>

text \<open>
  Claim C7, as the code has it. For every frame source whose \<open>start\<close> returns false, no
  exception is raised (\<open>start\<close> has no exceptional exit). Afterwards \<open>is_running\<close> is
  true exactly when the source was already running and the attempt to open the capture
  raised; the source is then left as it was. In every other case, in particular for a
  source that was not running and for a handle that comes back unopened, \<open>is_running\<close>
  is false and \<open>read_frame\<close> returns (false, null) without raising and without changing
  the source.
\<close>

theorem failed_start_running_iff:
  assumes failed: "fst (start open_capture now wp) = False"
  shows "(is_running (snd (start open_capture now wp))
            \<longleftrightarrow> is_running wp \<and> (\<exists>err. open_capture (camera_index wp) = Inl err))
    \<and> ((\<exists>err. open_capture (camera_index wp) = Inl err) \<longrightarrow> snd (start open_capture now wp) = wp)
    \<and> (\<not> is_running (snd (start open_capture now wp)) \<longrightarrow>
          read_frame resample now' (snd (start open_capture now wp))
            = (Inr (False, None), snd (start open_capture now wp)))"
  using failed
  by (auto simp: start_def is_running_def read_frame_def Let_def
      split: sum.splits if_splits option.splits)

text \<open>A newly constructed processor for the default camera, whose device is busy.\<close>

theorem failed_start_running_iff_witness:
  "fst (start busy_backend 100 (webcam_init demo_env 99 (CameraIndex 0))) = False
   \<and> \<not> is_running (webcam_init demo_env 99 (CameraIndex 0))
   \<and> \<not> is_running (snd (start busy_backend 100 (webcam_init demo_env 99 (CameraIndex 0))))
   \<and> fst (read_frame blank_resample 101
            (snd (start busy_backend 100 (webcam_init demo_env 99 (CameraIndex 0)))))
       = Inr (False, None)"
proof -
  have f: "fst (start busy_backend 100 (webcam_init demo_env 99 (CameraIndex 0))) = False"
    by (simp add: start_def busy_backend_def webcam_init_def)
  have n: "\<not> is_running (webcam_init demo_env 99 (CameraIndex 0))"
    by (simp add: is_running_def webcam_init_def)
  from failed_start_running_iff [OF f, of blank_resample 101] f n show ?thesis
    by simp
qed

text \<open>
  Claim C7, as stated, fails. A source that is running is started again and the capture
  constructor raises: \<open>start\<close> returns false and leaves the source untouched, so
  \<open>is_running\<close> is still true and \<open>read_frame\<close> delivers the next frame.
\<close>

theorem failed_start_still_running_counterexample:
  "fst (start raising_backend 100 (streaming (CameraIndex 0) frame_320x240)) = False
   \<and> is_running (snd (start raising_backend 100 (streaming (CameraIndex 0) frame_320x240)))
   \<and> fst (read_frame blank_resample 101
            (snd (start raising_backend 100 (streaming (CameraIndex 0) frame_320x240))))
       = Inr (True, Some frame_320x240)"
  by (simp add: start_def raising_backend_def streaming_def one_frame_def is_running_def
      read_frame_def cap_read_def)

text \<open>
  Claim C8, as the code has it. For every frame that a running source reads from its
  capture handle, \<open>read_frame\<close> returns (true, frame), unless the FPS update of that call
  divides by a zero time difference (on every tenth frame, when the clock has not advanced
  since the last sample). For a remote-stream source the frame returned is the frame read
  resized to exactly the target width and height if it is wider or taller than the target,
  and the frame read otherwise; so it is never wider or taller than the target. For a local
  device source it is the frame read.
\<close>

theorem read_frame_resizes_remote:
  assumes run: "is_running wp" and c: "cap wp = Some c"
    and rd: "cap_read c = (Some frame0, c')"
  shows "\<exists>frame.
      fst (read_frame resample now wp) =
        (if (frame_count wp + 1) mod 10 = 0 \<and> now - last_time wp = 0
         then Inl (PyError ''ZeroDivisionError'')
         else Inr (True, Some frame))
    \<and> (case camera_index wp of
          CameraUrl u \<Rightarrow>
            (if WEBCAM_WIDTH < width frame0 \<or> WEBCAM_HEIGHT < height frame0
             then frame = cv2_resize resample frame0 (WEBCAM_WIDTH, WEBCAM_HEIGHT)
                  \<and> width frame = WEBCAM_WIDTH \<and> height frame = WEBCAM_HEIGHT
             else frame = frame0)
            \<and> width frame \<le> WEBCAM_WIDTH \<and> height frame \<le> WEBCAM_HEIGHT
        | CameraIndex i \<Rightarrow> frame = frame0)"
  using run c rd
  by (auto simp: read_frame_def Let_def cv2_resize_def split: camera_id.splits)

text \<open>A 1280 by 720 frame from a network stream comes back as 640 by 480.\<close>

theorem read_frame_resizes_remote_witness:
  "is_running (streaming (CameraUrl ''http://192.168.1.5:8080/video'') frame_1280x720)
   \<and> cap (streaming (CameraUrl ''http://192.168.1.5:8080/video'') frame_1280x720)
       = Some (one_frame frame_1280x720)
   \<and> fst (cap_read (one_frame frame_1280x720)) = Some frame_1280x720
   \<and> fst (read_frame blank_resample 1
            (streaming (CameraUrl ''http://192.168.1.5:8080/video'') frame_1280x720))
       = Inr (True, Some \<lparr>height = 480, width = 640, pixels = []\<rparr>)
   \<and> width \<lparr>height = 480, width = 640, pixels = []\<rparr> = WEBCAM_WIDTH
   \<and> height \<lparr>height = 480, width = 640, pixels = []\<rparr> = WEBCAM_HEIGHT"
proof -
  let ?wp = "streaming (CameraUrl ''http://192.168.1.5:8080/video'') frame_1280x720"
  have r: "is_running ?wp"
    by (simp add: streaming_def one_frame_def is_running_def)
  have c: "cap ?wp = Some (one_frame frame_1280x720)"
    by (simp add: streaming_def)
  have rd: "cap_read (one_frame frame_1280x720)
      = (Some frame_1280x720, \<lparr>opened = True, stream = [], requested = []\<rparr>)"
    by (simp add: cap_read_def one_frame_def)
  from read_frame_resizes_remote [OF r c rd, of blank_resample 1] r c rd show ?thesis
    by (auto simp: streaming_def frame_1280x720_def cv2_resize_def blank_resample_def
        WEBCAM_WIDTH_def WEBCAM_HEIGHT_def)
qed

text \<open>
  Claim C8, as stated, fails. A 320 by 240 frame from a network stream is returned at 320
  by 240, and a 1280 by 720 frame from a local device at 1280 by 720: the frames returned
  do not all have the same dimensions, and neither has the target width.
\<close>

theorem same_dimensions_counterexample:
  "fst (read_frame blank_resample 1 (streaming (CameraUrl ''http://192.168.1.5:8080/video'') frame_320x240))
     = Inr (True, Some frame_320x240)
   \<and> fst (read_frame blank_resample 1 (streaming (CameraIndex 0) frame_1280x720))
     = Inr (True, Some frame_1280x720)
   \<and> width frame_320x240 \<noteq> width frame_1280x720
   \<and> width frame_320x240 \<noteq> WEBCAM_WIDTH
   \<and> width frame_1280x720 \<noteq> WEBCAM_WIDTH"
  by (simp add: read_frame_def streaming_def one_frame_def is_running_def cap_read_def
      frame_1280x720_def frame_320x240_def WEBCAM_WIDTH_def WEBCAM_HEIGHT_def)

end
